theory Spec2Isabelle
  imports Complex_Main "HOL-Library.Sublist"
begin

section \<open>Values shared by the services\<close>

text \<open>
  JavaScript numbers that hold quantities, stock levels, HTTP statuses and millisecond
  clocks are modelled as mathematical integers (\<open>int\<close>); the only fractional number of
  the development is the value of \<open>Math.random()\<close>, a rational in the retry service.
  Log calls and the timestamps written next to a document (\<open>orderDate\<close>,
  \<open>createdAt\<close>, \<open>lastModified\<close>) have no influence on any result and are left out.
\<close>

subsection \<open>Numbers in template literals\<close>

fun Number_toString_nat :: "nat \<Rightarrow> string" where
  "Number_toString_nat n =
     (if n < 10 then [''0123456789'' ! n]
      else Number_toString_nat (n div 10) @ [''0123456789'' ! (n mod 10)])"

declare Number_toString_nat.simps [simp del]

definition Number_toString :: "int \<Rightarrow> string" where
  \<comment> \<open>\<open>`${n}`\<close> for an integer n: decimal digits, a leading minus sign when negative.\<close>
  "Number_toString n =
     (if n < 0 then CHR ''-'' # Number_toString_nat (nat (- n)) else Number_toString_nat (nat n))"

subsection \<open>Exceptions of the framework\<close>

text \<open>
  \<open>HttpException\<close> and the subclasses the services test with \<open>instanceof\<close>. Every
  other thrown value (an \<open>Error\<close>, a Mongoose \<open>ValidationError\<close>, a \<open>TypeError\<close>)
  is \<open>OtherError\<close> with its message.
\<close>

datatype exn_class =
    HttpExceptionC
  | BadRequestExceptionC
  | NotFoundExceptionC
  | ConflictExceptionC
  | InternalServerErrorExceptionC

datatype response_body =
    Text string
  | ServiceBody int string string
  | ProviderBody string string response_body
  | ConflictBody string string string string string "string option"

datatype exn =
    Http exn_class int response_body
  | OtherError string

definition BadRequestException :: "string \<Rightarrow> exn" where
  "BadRequestException msg = Http BadRequestExceptionC 400 (Text msg)"

definition NotFoundException :: "string \<Rightarrow> exn" where
  "NotFoundException msg = Http NotFoundExceptionC 404 (Text msg)"

definition InternalServerErrorException :: "string \<Rightarrow> exn" where
  "InternalServerErrorException msg = Http InternalServerErrorExceptionC 500 (Text msg)"

fun body_message :: "response_body \<Rightarrow> string" where
  "body_message (Text m) = m"
| "body_message (ServiceBody _ m _) = m"
| "body_message (ProviderBody m _ _) = m"
| "body_message (ConflictBody m _ _ _ _ _) = m"

fun exn_message :: "exn \<Rightarrow> string" where
  \<comment> \<open>\<open>error.message\<close>\<close>
  "exn_message (Http _ _ b) = body_message b"
| "exn_message (OtherError m) = m"

fun getStatus :: "exn \<Rightarrow> int option" where
  "getStatus (Http _ s _) = Some s"
| "getStatus (OtherError _) = None"

fun instanceof :: "exn \<Rightarrow> exn_class \<Rightarrow> bool" where
  "instanceof (Http c _ _) HttpExceptionC = True"
| "instanceof (Http c _ _) k = (c = k)"
| "instanceof (OtherError _) _ = False"


subsection \<open>Strings and identifiers\<close>

definition toLowerCase_char :: "char \<Rightarrow> char" where
  "toLowerCase_char c =
     (case map_of (zip ''ABCDEFGHIJKLMNOPQRSTUVWXYZ'' ''abcdefghijklmnopqrstuvwxyz'') c of
        Some l \<Rightarrow> l
      | None \<Rightarrow> c)"

definition toLowerCase :: "string \<Rightarrow> string" where
  "toLowerCase s = map toLowerCase_char s"

fun includes_str :: "string \<Rightarrow> string \<Rightarrow> bool" where
  \<comment> \<open>\<open>s.includes(t)\<close>: t starts at some position of s\<close>
  "includes_str [] t = (t = [])"
| "includes_str (c # s) t = (prefix t (c # s) \<or> includes_str s t)"

definition ObjectId_isValid :: "string \<Rightarrow> bool" where
  \<comment> \<open>\<open>Types.ObjectId.isValid\<close> on a string: the 24 hexadecimal digits of an ObjectId
      (the form that \<open>IsMongoId\<close> admits on the request)\<close>
  "ObjectId_isValid s = (length s = 24 \<and> list_all (\<lambda>c. c \<in> set ''0123456789abcdefABCDEF'') s)"

definition new_ObjectId :: "string \<Rightarrow> string" where
  \<comment> \<open>\<open>new Types.ObjectId(s)\<close>, written as \<open>toString()\<close> prints it: lower-case hexadecimal\<close>
  "new_ObjectId s = toLowerCase s"

section \<open>The stored documents\<close>

record Track =
  track_id :: "string option"
  track_title :: "string option"
  track_position :: "string option"
  track_number :: "string option"
  track_length :: "string option"

record Record =
  artist :: string
  album :: string
  price :: rat
  qty :: int
  format :: string
  category :: "string option"
  mbid :: "string option"
  tracklist :: "Track list"

record Order =
  recordId :: string
  quantity :: int
  status :: string

text \<open>
  The two collections, each a list of documents with their \<open>_id\<close>, an identifier in
  the lower-case form that \<open>toString()\<close> prints. A session holds the committed database
  and, while a transaction is open, the working copy that the reads and writes of the
  session go to; \<open>commitTransaction\<close> installs the working copy,
  \<open>abortTransaction\<close> and \<open>endSession\<close> drop it. The enumerations
  \<open>RecordFormat\<close> and \<open>RecordCategory\<close> are strings.
\<close>

record db =
  records :: "(string \<times> Record) list"
  orders :: "(string \<times> Order) list"

record session =
  committed :: db
  working :: "db option"

definition startSession :: "db \<Rightarrow> session" where
  "startSession d = \<lparr>committed = d, working = None\<rparr>"

definition startTransaction :: "session \<Rightarrow> session" where
  "startTransaction s = s\<lparr>working := Some (committed s)\<rparr>"

definition inTransaction :: "session \<Rightarrow> bool" where
  "inTransaction s = (working s \<noteq> None)"

definition abortTransaction :: "session \<Rightarrow> session" where
  "abortTransaction s = s\<lparr>working := None\<rparr>"

definition commitTransaction :: "session \<Rightarrow> session" where
  "commitTransaction s =
     (case working s of None \<Rightarrow> s | Some w \<Rightarrow> \<lparr>committed = w, working = None\<rparr>)"

definition endSession :: "session \<Rightarrow> db" where
  "endSession s = committed s"

definition session_view :: "session \<Rightarrow> db" where
  \<comment> \<open>what a query with \<open>.session(session)\<close> reads and writes\<close>
  "session_view s = (case working s of None \<Rightarrow> committed s | Some w \<Rightarrow> w)"

definition session_write :: "db \<Rightarrow> session \<Rightarrow> session" where
  "session_write d s = (case working s of None \<Rightarrow> s\<lparr>committed := d\<rparr> | Some _ \<Rightarrow> s\<lparr>working := Some d\<rparr>)"

definition Record_findById :: "string \<Rightarrow> db \<Rightarrow> Record option" where
  "Record_findById i d = map_of (records d) i"

definition Record_findByIdAndUpdate_inc_qty :: "string \<Rightarrow> int \<Rightarrow> db \<Rightarrow> db" where
  \<comment> \<open>\<open>findByIdAndUpdate(id, { $inc: { qty: delta } })\<close>; no document with the id: nothing happens\<close>
  "Record_findByIdAndUpdate_inc_qty i delta d =
     d\<lparr>records := map (\<lambda>(j, r). if j = i then (j, r\<lparr>qty := qty r + delta\<rparr>) else (j, r)) (records d)\<rparr>"

definition Order_findById :: "string \<Rightarrow> db \<Rightarrow> Order option" where
  "Order_findById i d = map_of (orders d) i"

section \<open>The Order schema and its model\<close>

text \<open>
  The order model is injected into the service. \<open>order.schema.ts\<close> declares
  \<open>quantity\<close> with \<open>required: true, min: 1, max: 1000\<close> and \<open>status\<close> with
  \<open>enum: ['pending', 'confirmed', 'cancelled']\<close>, and \<open>record.module.ts\<close> registers
  the model \<open>'Order'\<close> with this schema: the \<open>save\<close> of a document of this model
  validates it against the schema first and rejects with a \<open>ValidationError\<close> when a
  validator fails (\<open>Order_save\<close>). The unit tests of the service inject a mock instead,
  whose \<open>save\<close> resolves with whatever document it is given
  (\<open>Order_save_unvalidated\<close>).
\<close>

type_synonym order_save = "string \<Rightarrow> Order \<Rightarrow> db \<Rightarrow> exn + ((string \<times> Order) \<times> db)"

definition Order_validate :: "Order \<Rightarrow> string option" where
  "Order_validate order =
     (if quantity order < 1 then
        Some (''Order validation failed: quantity: Path `quantity` ('' @ Number_toString (quantity order)
              @ '') is less than minimum allowed value (1).'')
      else if quantity order > 1000 then
        Some (''Order validation failed: quantity: Path `quantity` ('' @ Number_toString (quantity order)
              @ '') is more than maximum allowed value (1000).'')
      else if status order \<notin> set [''pending'', ''confirmed'', ''cancelled''] then
        Some (''Order validation failed: status: `'' @ status order
              @ ''` is not a valid enum value for path `status`.'')
      else None)"

definition Order_save :: order_save where
  \<comment> \<open>\<open>new this.orderModel(order).save()\<close> with the registered model; \<open>oid\<close> is the
      \<open>_id\<close> generated for the document\<close>
  "Order_save oid order d =
     (case Order_validate order of
        Some msg \<Rightarrow> Inl (OtherError msg)
      | None \<Rightarrow> Inr ((oid, order), d\<lparr>orders := orders d @ [(oid, order)]\<rparr>))"

definition Order_save_unvalidated :: order_save where
  \<comment> \<open>the \<open>save\<close> of a model without validators, as the mock of the unit tests\<close>
  "Order_save_unvalidated oid order d =
     Inr ((oid, order), d\<lparr>orders := orders d @ [(oid, order)]\<rparr>)"

section \<open>OrderService\<close>

record CreateOrderRequestDTO =
  dto_recordId :: string
  dto_quantity :: int

record OrderResponseDTO =
  res_id :: string
  res_recordId :: string
  res_quantity :: int
  res_status :: string
  availableQuantity :: int
  sufficientStock :: bool

definition createOrder_try ::
  "order_save \<Rightarrow> CreateOrderRequestDTO \<Rightarrow> string \<Rightarrow> session \<Rightarrow> (exn + OrderResponseDTO) \<times> session" where
  \<comment> \<open>the \<open>try\<close> block of \<open>createOrder\<close>: the outcome and the session as the block leaves it\<close>
  "createOrder_try save createOrderDto oid s0 =
     (let rid = new_ObjectId (dto_recordId createOrderDto);
          s1 = startTransaction s0
      in case Record_findById rid (session_view s1) of
           None \<Rightarrow>
             (Inl (NotFoundException (''Record with ID '' @ dto_recordId createOrderDto @ '' not found'')),
              abortTransaction s1)
         | Some record \<Rightarrow>
             if qty record < dto_quantity createOrderDto then
               (Inl (BadRequestException
                  (''Insufficient stock. Available: '' @ Number_toString (qty record)
                   @ '', Requested: '' @ Number_toString (dto_quantity createOrderDto))),
                abortTransaction s1)
             else
               let availableQuantity = qty record;
                   order = \<lparr>recordId = rid, quantity = dto_quantity createOrderDto, status = ''pending''\<rparr>
               in (case save oid order (session_view s1) of
                    Inl e \<Rightarrow> (Inl e, s1)
                  | Inr (savedOrder, d2) \<Rightarrow>
                      let s2 = session_write d2 s1;
                          s3 = session_write
                                 (Record_findByIdAndUpdate_inc_qty rid (- dto_quantity createOrderDto)
                                    (session_view s2)) s2;
                          s4 = commitTransaction s3
                      in (Inr \<lparr>res_id = fst savedOrder,
                               res_recordId = recordId (snd savedOrder),
                               res_quantity = quantity (snd savedOrder),
                               res_status = status (snd savedOrder),
                               availableQuantity = availableQuantity,
                               sufficientStock = True\<rparr>,
                          s4)))"

definition createOrder ::
  "order_save \<Rightarrow> CreateOrderRequestDTO \<Rightarrow> string \<Rightarrow> db \<Rightarrow> (exn + OrderResponseDTO) \<times> db" where
  \<comment> \<open>\<open>save\<close> is the \<open>save\<close> of the injected order model, \<open>oid\<close> the \<open>_id\<close> that the
      model generates for the new order\<close>
  "createOrder save createOrderDto oid d =
     (if \<not> ObjectId_isValid (dto_recordId createOrderDto) then
        (Inl (BadRequestException (''Invalid record ID format: '' @ dto_recordId createOrderDto)), d)
      else
        case createOrder_try save createOrderDto oid (startSession d) of
          (Inr r, s) \<Rightarrow> (Inr r, endSession s)
        | (Inl error, s) \<Rightarrow>
            let s' = (if inTransaction s then abortTransaction s else s)
            in (Inl (if instanceof error NotFoundExceptionC \<or> instanceof error BadRequestExceptionC
                     then error
                     else InternalServerErrorException (''Failed to create order: '' @ exn_message error)),
                endSession s'))"

definition toResponse :: "string \<times> Order \<Rightarrow> OrderResponseDTO" where
  \<comment> \<open>the object literal that \<open>getAllOrders\<close> and \<open>getOrderById\<close> build from a stored order\<close>
  "toResponse doc = \<lparr>res_id = fst doc,
                    res_recordId = recordId (snd doc),
                    res_quantity = quantity (snd doc),
                    res_status = status (snd doc),
                    availableQuantity = 0,
                    sufficientStock = True\<rparr>"

definition getAllOrders :: "db \<Rightarrow> OrderResponseDTO list" where
  "getAllOrders d = map toResponse (orders d)"

definition getOrderById :: "string \<Rightarrow> db \<Rightarrow> exn + OrderResponseDTO" where
  "getOrderById orderId d =
     (if \<not> ObjectId_isValid orderId then
        Inl (BadRequestException (''Invalid order ID format: '' @ orderId))
      else case Order_findById (new_ObjectId orderId) d of
             None \<Rightarrow> Inl (NotFoundException (''Order with ID '' @ orderId @ '' not found''))
           | Some order \<Rightarrow> Inr (toResponse (new_ObjectId orderId, order)))"

section \<open>RetryService\<close>

text \<open>
  What an operation can reject with: \<open>null\<close>, \<open>undefined\<close>, or any other value, of
  which the retry service reads the fields \<open>error.code\<close>, \<open>error.response?.status\<close>
  and \<open>error.message\<close>, each absent or present (a thrown string has none of them).
\<close>

record js_error =
  code :: "string option"
  response_status :: "int option"
  message :: "string option"

datatype rejection =
    RejectNull
  | RejectUndefined
  | RejectValue js_error

definition TypeError_reading_response :: "string \<Rightarrow> exn" where
  \<comment> \<open>the \<open>TypeError\<close> of reading \<open>.response\<close> of \<open>null\<close> or of \<open>undefined\<close>\<close>
  "TypeError_reading_response what =
     OtherError (''Cannot read properties of '' @ what @ '' (reading 'response')'')"

record ApiRetryConfig =
  maxAttempts :: "int option"
  maxDuration :: "int option"

record RequiredApiRetryConfig =
  r_maxAttempts :: int
  r_maxDuration :: int

definition defaultConfig :: RequiredApiRetryConfig where
  "defaultConfig = \<lparr>r_maxAttempts = 3, r_maxDuration = 30000\<rparr>"

definition mergeConfig :: "ApiRetryConfig option \<Rightarrow> RequiredApiRetryConfig" where
  "mergeConfig config =
     \<lparr>r_maxAttempts = (case Option.bind config maxAttempts of
                          Some n \<Rightarrow> n | None \<Rightarrow> r_maxAttempts defaultConfig),
      r_maxDuration = (case Option.bind config maxDuration of
                          Some n \<Rightarrow> n | None \<Rightarrow> r_maxDuration defaultConfig)\<rparr>"

definition isRetryableError :: "js_error \<Rightarrow> bool" where
  "isRetryableError error =
     (if (case code error of
            Some c \<Rightarrow> c \<noteq> [] \<and> c \<in> set [''ECONNREFUSED'', ''ECONNRESET'', ''ETIMEDOUT'',
                                              ''EHOSTUNREACH'', ''ENETUNREACH'', ''ENOTFOUND'']
          | None \<Rightarrow> False) then True
      else if (case response_status error of
                 Some s \<Rightarrow> s \<noteq> 0 \<and> s \<in> set [408, 429, 502, 503, 504]
               | None \<Rightarrow> False) then True
      else if (case message error of
                 Some m \<Rightarrow> includes_str (toLowerCase m) ''timeout''
               | None \<Rightarrow> False) then True
      else False)"

definition Math_pow2 :: "int \<Rightarrow> rat" where
  \<comment> \<open>\<open>Math.pow(2, n)\<close> for an integer n\<close>
  "Math_pow2 n = (if 0 \<le> n then 2 ^ nat n else 1 / 2 ^ nat (- n))"

definition calculateDelay :: "int \<Rightarrow> int \<Rightarrow> rat \<Rightarrow> int" where
  \<comment> \<open>\<open>random\<close> is the value that \<open>Math.random()\<close> returns, in \<open>[0, 1)\<close>\<close>
  "calculateDelay attempt remainingDuration random =
     (let delay0 = 1000 * Math_pow2 (attempt - 1);
          jitter = random * delay0 * (1 / 10);
          delay1 = delay0 + jitter;
          delay2 = min delay1 10000
      in if delay2 > of_int remainingDuration then max 0 remainingDuration
         else \<lfloor>delay2\<rfloor>)"

definition createHttpException :: "js_error \<Rightarrow> string \<Rightarrow> exn" where
  "createHttpException error serviceName =
     (let message = ''Failed to connect to '' @ serviceName;
          statusCode =
            (case response_status error of
               Some s \<Rightarrow>
                 if s \<noteq> 0 then s
                 else if code error = Some ''ECONNREFUSED'' \<or> code error = Some ''ETIMEDOUT''
                         \<or> code error = Some ''EHOSTUNREACH'' then 503
                 else 500
             | None \<Rightarrow>
                 if code error = Some ''ECONNREFUSED'' \<or> code error = Some ''ETIMEDOUT''
                    \<or> code error = Some ''EHOSTUNREACH'' then 503
                 else 500)
      in Http HttpExceptionC statusCode (ServiceBody statusCode message serviceName))"

text \<open>
  One run of \<open>executeWithRetry\<close>. The world it reads is given by three functions:
  \<open>operation k\<close> is what the k-th call of the operation does (it rejects or resolves
  with a value), \<open>now 0\<close> is the clock at the start and \<open>now k\<close> the clock
  read after the k-th call has failed, \<open>random k\<close> the random number drawn for the delay
  after the k-th call. The result records the outcome, how many times the operation was
  called and the delays slept, in order. The first statement of the \<open>catch\<close> block that
  reads the error is \<open>getErrorMessage(error)\<close>, whose result goes to the log only: it
  reads \<open>error.response\<close>, which throws a \<open>TypeError\<close> out of \<open>executeWithRetry\<close>
  when the operation has rejected with \<open>null\<close> or \<open>undefined\<close>.
\<close>

record 'a retry_run =
  outcome :: "exn + 'a"
  invocations :: nat
  sleeps :: "int list"

function executeWithRetry_loop ::
  "(nat \<Rightarrow> rejection + 'a) \<Rightarrow> string \<Rightarrow> RequiredApiRetryConfig \<Rightarrow> (nat \<Rightarrow> int) \<Rightarrow> (nat \<Rightarrow> rat)
     \<Rightarrow> int \<Rightarrow> js_error option \<Rightarrow> int list \<Rightarrow> 'a retry_run" where
  "executeWithRetry_loop operation serviceName finalConfig now random attempt lastError slept =
     (if attempt \<le> r_maxAttempts finalConfig then
        (case operation (nat attempt) of
           Inr data \<Rightarrow> \<lparr>outcome = Inr data, invocations = nat attempt, sleeps = slept\<rparr>
         | Inl RejectNull \<Rightarrow>
             \<lparr>outcome = Inl (TypeError_reading_response ''null''),
              invocations = nat attempt, sleeps = slept\<rparr>
         | Inl RejectUndefined \<Rightarrow>
             \<lparr>outcome = Inl (TypeError_reading_response ''undefined''),
              invocations = nat attempt, sleeps = slept\<rparr>
         | Inl (RejectValue error) \<Rightarrow>
             if \<not> isRetryableError error \<or> attempt = r_maxAttempts finalConfig then
               \<lparr>outcome = Inl (createHttpException error serviceName),
                invocations = nat attempt, sleeps = slept\<rparr>
             else
               let elapsedTime = now (nat attempt) - now 0;
                   delay = calculateDelay attempt (r_maxDuration finalConfig - elapsedTime)
                             (random (nat attempt))
               in if delay \<le> 0 then
                    \<lparr>outcome = Inl (createHttpException error serviceName),
                     invocations = nat attempt, sleeps = slept\<rparr>
                  else
                    executeWithRetry_loop operation serviceName finalConfig now random
                      (attempt + 1) (Some error) (slept @ [delay]))
      else
        \<lparr>outcome = Inl (case lastError of
                          Some error \<Rightarrow> createHttpException error serviceName
                        | None \<Rightarrow> TypeError_reading_response ''undefined''),
         invocations = nat (attempt - 1), sleeps = slept\<rparr>)"
  by pat_completeness auto
termination
  by (relation "measure (\<lambda>(operation, serviceName, finalConfig, now, random, attempt, lastError, slept).
                   nat (r_maxAttempts finalConfig + 1 - attempt))") auto

declare executeWithRetry_loop.simps [simp del]

definition executeWithRetry ::
  "(nat \<Rightarrow> rejection + 'a) \<Rightarrow> string \<Rightarrow> ApiRetryConfig option \<Rightarrow> (nat \<Rightarrow> int) \<Rightarrow> (nat \<Rightarrow> rat)
     \<Rightarrow> 'a retry_run" where
  "executeWithRetry operation serviceName config now random =
     executeWithRetry_loop operation serviceName (mergeConfig config) now random 1 None []"

section \<open>RecordService\<close>

subsection \<open>What the service is constructed with\<close>

record Media =
  media_format :: "string option"
  media_tracks :: "Track list option"

record Release =
  title :: string
  genre :: "string option"
  media :: "Media option"

text \<open>
  Modelled from the spec: the declarations of \<open>PaginationQueryDTO\<close> and
  \<open>PaginatedResponse\<close> (\<open>dtos/pagination.query.dto\<close>) are not among the sources.
  A paginated result is the page of rows with its pagination data, a pagination query an
  optional page and an optional limit: the fields that \<open>findAll\<close> reads and builds.
\<close>

record PaginationMeta =
  page :: int
  limit :: int
  total :: int
  totalPages :: int
  hasMore :: bool

record ProjectedRecord =
  p_id :: string
  p_artist :: string
  p_album :: string
  p_price :: rat
  p_format :: string
  p_category :: "string option"
  p_tracks :: nat

record PaginatedResponse =
  data :: "ProjectedRecord list"
  pagination :: PaginationMeta


record FacetResult =
  facet_metadata :: "int list"
  facet_data :: "ProjectedRecord list option"

record MatchQuery =
  match_artist :: "string option"
  match_album :: "string option"
  match_format :: "string option"
  match_category :: "string option"
  match_text_search :: "string option"

record Pipeline =
  match_stage :: "MatchQuery option"
  sort_by_textScore :: bool
  skip_stage :: int
  limit_stage :: int

text \<open>
  The cache manager is whatever was injected under \<open>'CACHE_MANAGER'\<close>: its state has an
  arbitrary type \<open>'c\<close>, and each of its operations returns the state it leaves behind
  together with its result, or with the error it rejects with. A Redis-backed store offers
  a client, which may offer \<open>keys\<close> and \<open>scan\<close>; the in-memory store offers none.
\<close>

record 'c CacheClient =
  client_keys :: "(string \<Rightarrow> 'c \<Rightarrow> (exn + string list) \<times> 'c) option"
  client_scan :: "(string \<Rightarrow> string \<Rightarrow> nat \<Rightarrow> 'c \<Rightarrow> (exn + string \<times> string list) \<times> 'c) option"
  client_del :: "string list \<Rightarrow> 'c \<Rightarrow> exn option \<times> 'c"

record 'c CacheManager =
  cache_get :: "string \<Rightarrow> 'c \<Rightarrow> (exn + PaginatedResponse option) \<times> 'c"
  cache_set :: "string \<Rightarrow> PaginatedResponse \<Rightarrow> int \<Rightarrow> 'c \<Rightarrow> exn option \<times> 'c"
  cache_getClient :: "'c \<Rightarrow> (exn + 'c CacheClient option) \<times> 'c"
  cache_reset :: "('c \<Rightarrow> exn option \<times> 'c) option"

text \<open>
  The other collaborators: the MusicBrainz service, the writes and the aggregation of the
  Mongoose record model (a write can be rejected by the schema or by a unique index), the
  SHA-1 digest of the \<open>crypto\<close> module and the configured cache TTL.
\<close>

record 'c RecordServiceDeps =
  getReleaseById :: "string \<Rightarrow> exn + Release"
  recordModel_create :: "Record \<Rightarrow> db \<Rightarrow> exn + (string \<times> Record) \<times> db"
  document_save :: "string \<times> Record \<Rightarrow> db \<Rightarrow> exn + db"
  recordModel_aggregate :: "Pipeline \<Rightarrow> db \<Rightarrow> exn + FacetResult list"
  cacheManager :: "'c CacheManager"
  sha1_hex :: "string \<Rightarrow> string"
  cacheTtl :: int

subsection \<open>The cache\<close>



definition truthy :: "string option \<Rightarrow> bool" where
  \<comment> \<open>an optional string in a condition: present and not empty\<close>
  "truthy x = (case x of Some s \<Rightarrow> s \<noteq> [] | None \<Rightarrow> False)"



partial_function (option) scan_loop ::
  "'c CacheClient \<Rightarrow> (string \<Rightarrow> string \<Rightarrow> nat \<Rightarrow> 'c \<Rightarrow> (exn + string \<times> string list) \<times> 'c)
     \<Rightarrow> string \<Rightarrow> 'c \<Rightarrow> (exn option \<times> 'c) option" where
  "scan_loop client scan cursor c =
     (case scan cursor ''records:*'' 100 c of
        (Inl e, c1) \<Rightarrow> Some (Some e, c1)
      | (Inr (cursor', keys), c1) \<Rightarrow>
          (case (if keys \<noteq> [] then client_del client keys c1 else (None, c1)) of
             (Some e, c2) \<Rightarrow> Some (Some e, c2)
           | (None, c2) \<Rightarrow>
               if cursor' \<noteq> ''0'' then scan_loop client scan cursor' c2
               else Some (None, c2)))"

definition invalidate_try :: "'c CacheManager \<Rightarrow> 'c \<Rightarrow> (exn option \<times> 'c) option" where
  \<comment> \<open>the \<open>try\<close> block of \<open>invalidateRecordsCache\<close>: the error it stops with, if any, and
      the cache it leaves; \<open>None\<close> when the SCAN loop never ends\<close>
  "invalidate_try cm c =
     (case cache_getClient cm c of
        (Inl e, c1) \<Rightarrow> Some (Some e, c1)
      | (Inr (Some client), c1) \<Rightarrow>
          (case client_keys client of
             Some keys_fn \<Rightarrow>
               (case keys_fn ''records:*'' c1 of
                  (Inl e, c2) \<Rightarrow> Some (Some e, c2)
                | (Inr keys, c2) \<Rightarrow>
                    if keys \<noteq> [] then Some (client_del client keys c2) else Some (None, c2))
           | None \<Rightarrow>
               (case client_scan client of
                  Some scan \<Rightarrow> scan_loop client scan ''0'' c1
                | None \<Rightarrow>
                    (case cache_reset cm of
                       Some reset \<Rightarrow> Some (reset c1)
                     | None \<Rightarrow> Some (None, c1))))
      | (Inr None, c1) \<Rightarrow>
          (case cache_reset cm of
             Some reset \<Rightarrow> Some (reset c1)
           | None \<Rightarrow> Some (None, c1)))"

definition invalidateRecordsCache :: "'c CacheManager \<Rightarrow> 'c \<Rightarrow> 'c option" where
  \<comment> \<open>the \<open>catch\<close> ignores the error: only the cache state is left\<close>
  "invalidateRecordsCache cm c = map_option snd (invalidate_try cm c)"

subsection \<open>Creating and updating records\<close>

record FindByIdentifiersDTO =
  i_mbid :: "string option"
  i_artist :: "string option"
  i_album :: "string option"
  i_format :: "string option"

record CreateRecordRequestDTO =
  c_artist :: string
  c_album :: string
  c_price :: rat
  c_qty :: int
  c_format :: string
  c_category :: string
  c_mbid :: "string option"

record UpdateRecordRequestDTO =
  u_artist :: "string option"
  u_album :: "string option"
  u_price :: "rat option"
  u_qty :: "int option"
  u_format :: "string option"
  u_category :: "string option"
  u_mbid :: "string option"

definition findByIdentifiers :: "FindByIdentifiersDTO \<Rightarrow> db \<Rightarrow> (string \<times> Record) option" where
  "findByIdentifiers identifiersDto d =
     (if truthy (i_mbid identifiersDto) then
        find (\<lambda>(i, r). mbid r = i_mbid identifiersDto) (records d)
      else if truthy (i_artist identifiersDto) \<and> truthy (i_album identifiersDto)
              \<and> i_format identifiersDto \<noteq> None then
        find (\<lambda>(i, r). Some (artist r) = i_artist identifiersDto
                      \<and> Some (album r) = i_album identifiersDto
                      \<and> Some (format r) = i_format identifiersDto) (records d)
      else None)"

definition apply_release :: "Release \<Rightarrow> Record \<Rightarrow> Record" where
  \<comment> \<open>the four assignments that take the provider's data as the source of truth\<close>
  "apply_release release record =
     record\<lparr>album := title release,
            category := genre release,
            format := (case Option.bind (media release) media_format of
                         Some f \<Rightarrow> if f \<noteq> [] then f else format record
                       | None \<Rightarrow> format record),
            tracklist := (case Option.bind (media release) media_tracks of
                            Some ts \<Rightarrow> ts
                          | None \<Rightarrow> [])\<rparr>"

definition provider_error :: "string \<Rightarrow> exn \<Rightarrow> exn" where
  \<comment> \<open>the \<open>catch\<close> around \<open>getReleaseById\<close>, with the message of the call site\<close>
  "provider_error msg err =
     (case err of
        Http c st resp \<Rightarrow> Http HttpExceptionC st (ProviderBody msg ''MusicBrainz'' resp)
      | OtherError _ \<Rightarrow> InternalServerErrorException ''Failed to fetch MBID data'')"

definition attachProviderDataToRecord :: "'c RecordServiceDeps \<Rightarrow> string \<Rightarrow> Record \<Rightarrow> exn + Record" where
  "attachProviderDataToRecord deps m record =
     (case getReleaseById deps m of
        Inr release \<Rightarrow> Inr (apply_release release record)
      | Inl err \<Rightarrow>
          Inl (provider_error ''Failed to fetch data from MusicBrainz. Try again later.'' err))"

definition create_persist ::
  "'c RecordServiceDeps \<Rightarrow> CreateRecordRequestDTO \<Rightarrow> db \<Rightarrow> exn + (string \<times> Record) \<times> db" where
  \<comment> \<open>the \<open>try\<close> block of \<open>create\<close> up to \<open>commitTransaction\<close>; no query of it runs in
      the session, so the transaction that the block opens and commits holds no write\<close>
  "create_persist deps createDto d =
     (case findByIdentifiers \<lparr>i_mbid = c_mbid createDto, i_artist = Some (c_artist createDto),
                               i_album = Some (c_album createDto),
                               i_format = Some (c_format createDto)\<rparr> d of
        Some (eid, existingRecord) \<Rightarrow>
          Inl (Http ConflictExceptionC 409
                 (ConflictBody ''Record with these identifiers already exists'' eid
                    (artist existingRecord) (album existingRecord) (format existingRecord)
                    (mbid existingRecord)))
      | None \<Rightarrow>
          let base = \<lparr>artist = c_artist createDto, album = c_album createDto,
                       price = c_price createDto, qty = c_qty createDto,
                       format = c_format createDto, category = Some (c_category createDto),
                       mbid = c_mbid createDto, tracklist = []\<rparr>
          in (case (case c_mbid createDto of
                      Some m \<Rightarrow> if m \<noteq> [] then attachProviderDataToRecord deps m base else Inr base
                    | None \<Rightarrow> Inr base) of
                Inl e \<Rightarrow> Inl e
              | Inr base' \<Rightarrow> recordModel_create deps base' d))"

definition create_try ::
  "'c RecordServiceDeps \<Rightarrow> CreateRecordRequestDTO \<Rightarrow> db \<Rightarrow> 'c \<Rightarrow> ((exn + string \<times> Record) \<times> db \<times> 'c) option" where
  \<comment> \<open>the whole \<open>try\<close> block: \<open>None\<close> when the cache invalidation never ends\<close>
  "create_try deps createDto d c =
     (case create_persist deps createDto d of
        Inl e \<Rightarrow> Some (Inl e, d, c)
      | Inr (created, d') \<Rightarrow>
          map_option (\<lambda>c'. (Inr created, d', c'))
            (invalidateRecordsCache (cacheManager deps) c))"

definition create ::
  "'c RecordServiceDeps \<Rightarrow> CreateRecordRequestDTO \<Rightarrow> db \<Rightarrow> 'c \<Rightarrow> ((exn + string \<times> Record) \<times> db \<times> 'c) option" where
  "create deps createDto d c =
     map_option
       (\<lambda>(r, d', c').
          (case r of
             Inr created \<Rightarrow> Inr created
           | Inl error \<Rightarrow>
               Inl (if instanceof error NotFoundExceptionC \<or> instanceof error BadRequestExceptionC
                       \<or> instanceof error ConflictExceptionC
                    then error
                    else InternalServerErrorException
                           (''Failed to create record: '' @ exn_message error)),
           d', c'))
       (create_try deps createDto d c)"

definition apply_updates :: "UpdateRecordRequestDTO \<Rightarrow> Record \<Rightarrow> Record" where
  \<comment> \<open>the \<open>forEach\<close> over \<open>updatableFields\<close>\<close>
  "apply_updates updateDto record =
     (let from_provider = truthy (u_mbid updateDto);
          r1 = (case u_artist updateDto of Some v \<Rightarrow> record\<lparr>artist := v\<rparr> | None \<Rightarrow> record);
          r2 = (case u_album updateDto of
                  Some v \<Rightarrow> if from_provider then r1 else r1\<lparr>album := v\<rparr> | None \<Rightarrow> r1);
          r3 = (case u_price updateDto of Some v \<Rightarrow> r2\<lparr>price := v\<rparr> | None \<Rightarrow> r2);
          r4 = (case u_qty updateDto of Some v \<Rightarrow> r3\<lparr>qty := v\<rparr> | None \<Rightarrow> r3);
          r5 = (case u_format updateDto of
                  Some v \<Rightarrow> if from_provider then r4 else r4\<lparr>format := v\<rparr> | None \<Rightarrow> r4);
          r6 = (case u_category updateDto of
                  Some v \<Rightarrow> if from_provider then r5 else r5\<lparr>category := Some v\<rparr> | None \<Rightarrow> r5)
      in r6)"

definition update_persist ::
  "'c RecordServiceDeps \<Rightarrow> string \<Rightarrow> UpdateRecordRequestDTO \<Rightarrow> db \<Rightarrow> exn + (string \<times> Record) \<times> db" where
  \<comment> \<open>\<open>update\<close> up to \<open>record.save()\<close>\<close>
  "update_persist deps id' updateDto d =
     (case Record_findById id' d of
        None \<Rightarrow> Inl (NotFoundException ''Record not found'')
      | Some record \<Rightarrow>
          (case (case u_mbid updateDto of
                   Some m \<Rightarrow>
                     if m \<noteq> [] \<and> Some m \<noteq> mbid record then
                       (case getReleaseById deps m of
                          Inr release \<Rightarrow> Inr ((apply_release release record)\<lparr>mbid := Some m\<rparr>)
                        | Inl err \<Rightarrow>
                            Inl (provider_error ''Failed to fetch data from MusicBrainz'' err))
                     else Inr record
                 | None \<Rightarrow> Inr record) of
             Inl e \<Rightarrow> Inl e
           | Inr record1 \<Rightarrow>
               let record2 = apply_updates updateDto record1
               in (case document_save deps (id', record2) d of
                     Inl e \<Rightarrow> Inl e
                   | Inr d' \<Rightarrow> Inr ((id', record2), d'))))"

definition update ::
  "'c RecordServiceDeps \<Rightarrow> string \<Rightarrow> UpdateRecordRequestDTO \<Rightarrow> db \<Rightarrow> 'c \<Rightarrow> ((exn + string \<times> Record) \<times> db \<times> 'c) option" where
  "update deps id' updateDto d c =
     (case update_persist deps id' updateDto d of
        Inl e \<Rightarrow> Some (Inl e, d, c)
      | Inr (record, d') \<Rightarrow>
          map_option (\<lambda>c'. (Inr record, d', c'))
            (invalidateRecordsCache (cacheManager deps) c))"

subsection \<open>Listing records\<close>




section \<open>Example data\<close>

text \<open>
  A database with one record, operations and clocks for runs of the retry service, caches
  that reject, and a record service around them.
\<close>

definition example_record :: Record where
  "example_record = \<lparr>artist = ''The Beatles'', album = ''Abbey Road'', price = 25, qty = 10,
      format = ''Vinyl'', category = Some ''Rock'', mbid = None, tracklist = []\<rparr>"

definition example_db :: db where
  "example_db = \<lparr>records = [(''507f1f77bcf86cd799439011'', example_record)], orders = []\<rparr>"

definition sold_out_db :: db where
  \<comment> \<open>the record after an order for all of its stock\<close>
  "sold_out_db = \<lparr>records = [(''507f1f77bcf86cd799439011'', example_record\<lparr>qty := 0\<rparr>)],
                   orders = [(''607f1f77bcf86cd799439010'',
                              \<lparr>recordId = ''507f1f77bcf86cd799439011'', quantity = 10,
                                 status = ''pending''\<rparr>)]\<rparr>"

definition flaky_operation :: "nat \<Rightarrow> rejection + string" where
  \<comment> \<open>connection reset on the first call, timeout on the second, success afterwards\<close>
  "flaky_operation k =
     (if k = 1 then Inl (RejectValue \<lparr>code = Some ''ECONNRESET'', response_status = None, message = None\<rparr>)
      else if k = 2 then Inl (RejectValue \<lparr>code = Some ''ETIMEDOUT'', response_status = None, message = None\<rparr>)
      else Inr ''success'')"

definition not_found_operation :: "nat \<Rightarrow> rejection + string" where
  \<comment> \<open>every call is answered with HTTP 404\<close>
  "not_found_operation k =
     Inl (RejectValue \<lparr>code = None, response_status = Some 404, message = Some ''Request failed with status code 404''\<rparr>)"

definition reset_operation :: "nat \<Rightarrow> rejection + string" where
  \<comment> \<open>every call ends with a connection reset\<close>
  "reset_operation k = Inl (RejectValue \<lparr>code = Some ''ECONNRESET'', response_status = None, message = None\<rparr>)"

definition quick_clock :: "nat \<Rightarrow> int" where
  \<comment> \<open>a failed call is noticed 50 ms after the previous reading\<close>
  "quick_clock k = 50 * int k"

definition slow_clock :: "nat \<Rightarrow> int" where
  \<comment> \<open>every call takes 20 seconds to fail\<close>
  "slow_clock k = 20000 * int k"

definition half :: "nat \<Rightarrow> rat" where
  "half k = 1 / 2"

definition tight_config :: RequiredApiRetryConfig where
  "tight_config = \<lparr>r_maxAttempts = 5, r_maxDuration = 1500\<rparr>"






definition failing_provider :: "string \<Rightarrow> exn + Release" where
  \<comment> \<open>MusicBrainz knows no release: \<open>getReleaseById\<close> throws its 404\<close>
  "failing_provider m =
     Inl (Http HttpExceptionC 404 (Text (''Release with ID '' @ m @ '' not found in MusicBrainz'')))"

definition broken_client :: "unit CacheClient" where
  \<comment> \<open>a Redis client whose connection is closed\<close>
  "broken_client =
     \<lparr>client_keys = Some (\<lambda>pattern c. (Inl (OtherError ''Connection is closed.''), c)),
      client_scan = None,
      client_del = (\<lambda>keys c. (Some (OtherError ''Connection is closed.''), c))\<rparr>"

definition broken_cache :: "unit CacheManager" where
  \<comment> \<open>every operation of the cache rejects\<close>
  "broken_cache =
     \<lparr>cache_get = (\<lambda>key c. (Inl (OtherError ''Connection is closed.''), c)),
      cache_set = (\<lambda>key v ttl c. (Some (OtherError ''Connection is closed.''), c)),
      cache_getClient = (\<lambda>c. (Inr (Some broken_client), c)),
      cache_reset = None\<rparr>"


definition example_row :: ProjectedRecord where
  "example_row = \<lparr>p_id = ''507f1f77bcf86cd799439011'', p_artist = ''The Beatles'',
                   p_album = ''Abbey Road'', p_price = 25, p_format = ''Vinyl'',
                   p_category = Some ''Rock'', p_tracks = 0\<rparr>"

definition example_deps :: "unit CacheManager \<Rightarrow> unit RecordServiceDeps" where
  \<comment> \<open>a service whose database works, whose provider fails, around the given cache\<close>
  "example_deps cm =
     \<lparr>getReleaseById = failing_provider,
      recordModel_create =
        (\<lambda>r d. Inr ((''507f1f77bcf86cd799439012'', r),
                     d\<lparr>records := records d @ [(''507f1f77bcf86cd799439012'', r)]\<rparr>)),
      document_save =
        (\<lambda>doc d. Inr (d\<lparr>records := map (\<lambda>(j, r). if j = fst doc then doc else (j, r))
                                         (records d)\<rparr>)),
      recordModel_aggregate =
        (\<lambda>pipeline d. Inr [\<lparr>facet_metadata = [1], facet_data = Some [example_row]\<rparr>]),
      cacheManager = cm,
      sha1_hex = (\<lambda>raw. raw),
      cacheTtl = 60\<rparr>"

definition example_createDto :: "string option \<Rightarrow> CreateRecordRequestDTO" where
  "example_createDto m =
     \<lparr>c_artist = ''Pink Floyd'', c_album = ''Animals'', c_price = 30, c_qty = 5,
      c_format = ''Vinyl'', c_category = ''Rock'', c_mbid = m\<rparr>"

definition example_updateDto :: "string option \<Rightarrow> UpdateRecordRequestDTO" where
  "example_updateDto m =
     \<lparr>u_artist = None, u_album = None, u_price = None, u_qty = Some 7,
      u_format = None, u_category = None, u_mbid = m\<rparr>"




section \<open>Facts about the model\<close>

lemmas session_defs = startSession_def startTransaction_def inTransaction_def abortTransaction_def
  commitTransaction_def endSession_def session_view_def session_write_def

lemma map_of_inc_qty:
  "map_of (map (\<lambda>(j, r). if j = i then (j, f r) else (j, r)) xs) k =
     (if k = i then map_option f (map_of xs i) else map_of xs k)"
  by (induction xs) auto

lemma example_id_valid: "ObjectId_isValid ''507f1f77bcf86cd799439011''"
  by (simp add: ObjectId_isValid_def)

lemma example_id_canonical:
  "new_ObjectId ''507f1f77bcf86cd799439011'' = ''507f1f77bcf86cd799439011''"
  by (simp add: new_ObjectId_def toLowerCase_def toLowerCase_char_def)

lemma example_order_id_valid: "ObjectId_isValid ''607f1f77bcf86cd799439010''"
  by (simp add: ObjectId_isValid_def)

lemma example_order_id_canonical:
  "new_ObjectId ''607f1f77bcf86cd799439010'' = ''607f1f77bcf86cd799439010''"
  by (simp add: new_ObjectId_def toLowerCase_def toLowerCase_char_def)

lemma example_found:
  "Record_findById (new_ObjectId ''507f1f77bcf86cd799439011'') example_db = Some example_record"
  by (simp add: example_id_canonical Record_findById_def example_db_def)

lemma sold_out_found:
  "Record_findById (new_ObjectId ''507f1f77bcf86cd799439011'') sold_out_db
     = Some (example_record\<lparr>qty := 0\<rparr>)"
  by (simp add: example_id_canonical Record_findById_def sold_out_db_def)

section \<open>OrderService: creating an order\<close>

text \<open>
  C1 (as amended). For an existing record with stock \<open>qty r\<close> and a requested quantity
  between 1 and 1000 that does not exceed the stock, \<open>createOrder\<close>, with the order model
  that the application registers, succeeds: the response
  has status \<open>pending\<close> and reports the stock before the decrement as
  \<open>availableQuantity\<close>, the record's \<open>qty\<close> afterwards is the old one minus the
  quantity, no other record changes, and exactly the new order has been added.
\<close>

theorem createOrder_decrements_stock:
  assumes "ObjectId_isValid (dto_recordId dto)"
    and "Record_findById (new_ObjectId (dto_recordId dto)) d = Some r"
    and "1 \<le> dto_quantity dto" and "dto_quantity dto \<le> 1000"
    and "dto_quantity dto \<le> qty r"
  shows "case createOrder Order_save dto oid d of
           (Inr resp, d') \<Rightarrow>
              res_status resp = ''pending'' \<and> availableQuantity resp = qty r
              \<and> res_quantity resp = dto_quantity dto
              \<and> Record_findById (new_ObjectId (dto_recordId dto)) d'
                  = Some (r\<lparr>qty := qty r - dto_quantity dto\<rparr>)
              \<and> (\<forall>k. k \<noteq> new_ObjectId (dto_recordId dto) \<longrightarrow>
                     Record_findById k d' = Record_findById k d)
              \<and> orders d' = orders d @ [(oid, \<lparr>recordId = new_ObjectId (dto_recordId dto),
                                                quantity = dto_quantity dto, status = ''pending''\<rparr>)]
         | (Inl e, d') \<Rightarrow> False"
proof -
  have valid: "Order_validate \<lparr>recordId = new_ObjectId (dto_recordId dto),
                 quantity = dto_quantity dto, status = ''pending''\<rparr> = None"
    using assms(3,4) by (simp add: Order_validate_def)
  have found: "map_of (records d) (new_ObjectId (dto_recordId dto)) = Some r"
    using assms(2) by (simp add: Record_findById_def)
  show ?thesis
    using assms(1,5) found
    by (simp add: createOrder_def createOrder_try_def session_defs Order_save_def valid
          Record_findByIdAndUpdate_inc_qty_def Record_findById_def map_of_inc_qty Let_def)
qed

theorem createOrder_decrements_stock_witness:
  "case createOrder Order_save \<lparr>dto_recordId = ''507f1f77bcf86cd799439011'', dto_quantity = 10\<rparr>
          ''607f1f77bcf86cd799439010'' example_db of
     (Inr resp, d') \<Rightarrow>
        res_status resp = ''pending'' \<and> availableQuantity resp = 10 \<and> res_quantity resp = 10
        \<and> map_option qty (Record_findById ''507f1f77bcf86cd799439011'' d') = Some 0
        \<and> map fst (orders d') = [''607f1f77bcf86cd799439010'']
   | (Inl e, d') \<Rightarrow> False"
  using createOrder_decrements_stock
      [of "\<lparr>dto_recordId = ''507f1f77bcf86cd799439011'', dto_quantity = 10\<rparr>"
          example_db example_record "''607f1f77bcf86cd799439010''"]
    example_id_valid example_found
  by (simp add: example_id_canonical example_record_def example_db_def sold_out_db_def
        Record_findById_def split: prod.splits sum.splits)

text \<open>
  The claim as written, for every quantity not above the stock, fails at quantity 0:
  the stock check passes, the schema of the registered order model rejects the document,
  the error surfaces as status 500 and the database is as before.
\<close>

theorem createOrder_zero_quantity_counterexample:
  "(0::int) \<le> qty example_record
   \<and> Record_findById (new_ObjectId ''507f1f77bcf86cd799439011'') example_db = Some example_record
   \<and> map_sum getStatus res_status
        (fst (createOrder Order_save \<lparr>dto_recordId = ''507f1f77bcf86cd799439011'', dto_quantity = 0\<rparr>
                ''607f1f77bcf86cd799439010'' example_db)) = Inl (Some 500)
   \<and> snd (createOrder Order_save \<lparr>dto_recordId = ''507f1f77bcf86cd799439011'', dto_quantity = 0\<rparr>
             ''607f1f77bcf86cd799439010'' example_db) = example_db"
  by (simp add: example_found createOrder_def createOrder_try_def session_defs example_id_valid
        Order_save_def Order_validate_def InternalServerErrorException_def Let_def example_record_def)

text \<open>
  C2. For an existing record and a requested quantity above its stock, \<open>createOrder\<close>
  fails with the 400 error whose message is
  \<open>Insufficient stock. Available: X, Requested: Y\<close>, X the stock and Y the quantity, and
  the database it leaves is the one it found: no stock changed, no order created.
\<close>

theorem createOrder_insufficient_stock:
  assumes "ObjectId_isValid (dto_recordId dto)"
    and "Record_findById (new_ObjectId (dto_recordId dto)) d = Some r"
    and "qty r < dto_quantity dto"
  shows "createOrder Order_save dto oid d =
           (Inl (BadRequestException
                  (''Insufficient stock. Available: '' @ Number_toString (qty r)
                   @ '', Requested: '' @ Number_toString (dto_quantity dto))), d)"
  using assms
  by (simp add: createOrder_def createOrder_try_def session_defs BadRequestException_def Let_def)

theorem createOrder_insufficient_stock_witness:
  "createOrder Order_save \<lparr>dto_recordId = ''507f1f77bcf86cd799439011'', dto_quantity = 1\<rparr>
      ''607f1f77bcf86cd799439012'' sold_out_db =
     (Inl (Http BadRequestExceptionC 400 (Text ''Insufficient stock. Available: 0, Requested: 1'')),
      sold_out_db)"
  using createOrder_insufficient_stock
      [of "\<lparr>dto_recordId = ''507f1f77bcf86cd799439011'', dto_quantity = 1\<rparr>"
          sold_out_db "example_record\<lparr>qty := 0\<rparr>" "''607f1f77bcf86cd799439012''"]
    example_id_valid sold_out_found
  by (simp add: BadRequestException_def Number_toString_def Number_toString_nat.simps)

text \<open>
  C9 (as amended). For a requested quantity of zero or less and an existing record with
  stock of zero or more, the stock check of \<open>createOrder\<close> passes. With the order model
  that the application registers, saving the order is then rejected by the schema
  (\<open>min: 1\<close>): \<open>createOrder\<close> fails with an InternalServerErrorException and the
  database is left as it was, so no order is created and the stock does not change. Only
  with an order model that validates nothing, as the mock of the unit tests, is the order
  created and committed, and the stock becomes the old one minus the quantity, which is
  not less than before.
\<close>

theorem createOrder_nonpositive_quantity_rejected:
  assumes "ObjectId_isValid (dto_recordId dto)"
    and "Record_findById (new_ObjectId (dto_recordId dto)) d = Some r"
    and "dto_quantity dto \<le> 0" and "0 \<le> qty r"
  shows "\<not> qty r < dto_quantity dto
         \<and> (\<exists>msg. createOrder Order_save dto oid d = (Inl (InternalServerErrorException msg), d))
         \<and> (case createOrder Order_save_unvalidated dto oid d of
               (Inr resp, d') \<Rightarrow>
                  Record_findById (new_ObjectId (dto_recordId dto)) d'
                    = Some (r\<lparr>qty := qty r - dto_quantity dto\<rparr>)
                  \<and> qty r \<le> qty r - dto_quantity dto
                  \<and> orders d' = orders d @ [(oid, \<lparr>recordId = new_ObjectId (dto_recordId dto),
                                                    quantity = dto_quantity dto, status = ''pending''\<rparr>)]
             | (Inl e, d') \<Rightarrow> False)"
proof -
  have found: "map_of (records d) (new_ObjectId (dto_recordId dto)) = Some r"
    using assms(2) by (simp add: Record_findById_def)
  have check: "\<not> qty r < dto_quantity dto"
    using assms(3,4) by simp
  have rejected: "\<exists>msg. createOrder Order_save dto oid d = (Inl (InternalServerErrorException msg), d)"
    using assms
    by (simp add: createOrder_def createOrder_try_def session_defs Order_save_def Order_validate_def
          InternalServerErrorException_def Let_def)
  have accepted: "case createOrder Order_save_unvalidated dto oid d of
               (Inr resp, d') \<Rightarrow>
                  Record_findById (new_ObjectId (dto_recordId dto)) d'
                    = Some (r\<lparr>qty := qty r - dto_quantity dto\<rparr>)
                  \<and> qty r \<le> qty r - dto_quantity dto
                  \<and> orders d' = orders d @ [(oid, \<lparr>recordId = new_ObjectId (dto_recordId dto),
                                                    quantity = dto_quantity dto, status = ''pending''\<rparr>)]
             | (Inl e, d') \<Rightarrow> False"
    using assms(1,3) check found
    by (simp add: createOrder_def createOrder_try_def session_defs Order_save_unvalidated_def
          Record_findByIdAndUpdate_inc_qty_def Record_findById_def map_of_inc_qty Let_def)
  show ?thesis
    using check rejected accepted by blast
qed

theorem createOrder_nonpositive_quantity_rejected_witness:
  "\<not> qty example_record < - 5
   \<and> (\<exists>msg. createOrder Order_save \<lparr>dto_recordId = ''507f1f77bcf86cd799439011'', dto_quantity = - 5\<rparr>
               ''607f1f77bcf86cd799439010'' example_db
             = (Inl (InternalServerErrorException msg), example_db))
   \<and> (case createOrder Order_save_unvalidated
              \<lparr>dto_recordId = ''507f1f77bcf86cd799439011'', dto_quantity = - 5\<rparr>
              ''607f1f77bcf86cd799439010'' example_db of
         (Inr resp, d') \<Rightarrow>
            map_option qty (Record_findById ''507f1f77bcf86cd799439011'' d') = Some 15
       | (Inl e, d') \<Rightarrow> False)"
  using createOrder_nonpositive_quantity_rejected
      [of "\<lparr>dto_recordId = ''507f1f77bcf86cd799439011'', dto_quantity = - 5\<rparr>"
          example_db example_record "''607f1f77bcf86cd799439010''"]
    example_id_valid example_found
  by (simp add: example_record_def example_id_canonical split: prod.splits sum.splits)

text \<open>
  The claim's own example, quantity \<open>-1\<close>, on the service as the application builds
  it: the stock check passes, yet the call ends with status 500, the stock is still 10 and
  there is still no order.
\<close>

theorem createOrder_negative_quantity_counterexample:
  "\<not> qty example_record < - 1
   \<and> map_sum getStatus res_status
        (fst (createOrder Order_save \<lparr>dto_recordId = ''507f1f77bcf86cd799439011'', dto_quantity = - 1\<rparr>
                ''607f1f77bcf86cd799439010'' example_db)) = Inl (Some 500)
   \<and> map_option qty
        (Record_findById ''507f1f77bcf86cd799439011''
           (snd (createOrder Order_save \<lparr>dto_recordId = ''507f1f77bcf86cd799439011'', dto_quantity = - 1\<rparr>
                   ''607f1f77bcf86cd799439010'' example_db))) = Some 10
   \<and> orders (snd (createOrder Order_save \<lparr>dto_recordId = ''507f1f77bcf86cd799439011'', dto_quantity = - 1\<rparr>
                     ''607f1f77bcf86cd799439010'' example_db)) = []"
  by (simp add: example_found createOrder_def createOrder_try_def session_defs example_id_valid
        Order_save_def Order_validate_def InternalServerErrorException_def Let_def
        example_record_def example_db_def Record_findById_def example_id_canonical)

section \<open>OrderService: reading orders\<close>

text \<open>
  C10. Every response of \<open>getAllOrders\<close>, and the response of \<open>getOrderById\<close> for
  every stored order, has \<open>availableQuantity = 0\<close> and \<open>sufficientStock = true\<close>,
  whatever the order's quantity is; the other fields are those of the stored order.
\<close>

theorem read_operations_constant_stock_fields:
  "(\<forall>resp \<in> set (getAllOrders d). availableQuantity resp = 0 \<and> sufficientStock resp)
   \<and> map res_quantity (getAllOrders d) = map (\<lambda>doc. quantity (snd doc)) (orders d)
   \<and> (ObjectId_isValid orderId \<and> Order_findById (new_ObjectId orderId) d = Some order \<longrightarrow>
        (\<exists>resp. getOrderById orderId d = Inr resp \<and> availableQuantity resp = 0
                \<and> sufficientStock resp \<and> res_quantity resp = quantity order))"
  by (auto simp add: getAllOrders_def getOrderById_def toResponse_def)

theorem read_operations_constant_stock_fields_witness:
  "map availableQuantity (getAllOrders sold_out_db) = [0]
   \<and> map sufficientStock (getAllOrders sold_out_db) = [True]
   \<and> map res_quantity (getAllOrders sold_out_db) = [10]
   \<and> map_sum id availableQuantity (getOrderById ''607f1f77bcf86cd799439010'' sold_out_db) = Inr 0
   \<and> map_sum id sufficientStock (getOrderById ''607f1f77bcf86cd799439010'' sold_out_db) = Inr True
   \<and> map_sum id res_quantity (getOrderById ''607f1f77bcf86cd799439010'' sold_out_db) = Inr 10"
proof -
  have stored: "Order_findById (new_ObjectId ''607f1f77bcf86cd799439010'') sold_out_db
                  = Some \<lparr>recordId = ''507f1f77bcf86cd799439011'', quantity = 10, status = ''pending''\<rparr>"
    by (simp add: example_order_id_canonical Order_findById_def sold_out_db_def)
  have listed: "getAllOrders sold_out_db
                  = [toResponse (''607f1f77bcf86cd799439010'',
                       \<lparr>recordId = ''507f1f77bcf86cd799439011'', quantity = 10, status = ''pending''\<rparr>)]"
    by (simp add: getAllOrders_def sold_out_db_def)
  from read_operations_constant_stock_fields
         [of sold_out_db "''607f1f77bcf86cd799439010''"
             "\<lparr>recordId = ''507f1f77bcf86cd799439011'', quantity = 10, status = ''pending''\<rparr>"]
       example_order_id_valid stored
  obtain resp where
    "getOrderById ''607f1f77bcf86cd799439010'' sold_out_db = Inr resp"
    "availableQuantity resp = 0" "sufficientStock resp" "res_quantity resp = 10"
    by auto
  then show ?thesis
    by (simp add: listed toResponse_def)
qed

section \<open>RetryService\<close>


lemma calculateDelay_unfold:
  assumes "1 \<le> k"
  shows "calculateDelay k remaining r =
           (let D = min (1000 * 2 ^ nat (k - 1) + r * (1000 * 2 ^ nat (k - 1)) * (1 / 10)) 10000
            in if D > of_int remaining then max 0 remaining else \<lfloor>D\<rfloor>)"
  using assms by (simp add: calculateDelay_def Math_pow2_def Let_def)

lemma jittered_bounds:
  fixes r :: rat and k :: int
  assumes "0 \<le> r" "r < 1"
  defines "p \<equiv> 1000 * 2 ^ nat (k - 1) :: rat"
  defines "D \<equiv> min (p + r * p * (1 / 10)) 10000"
  shows "min 10000 p \<le> D" and "10 * D \<le> 11 * min 10000 p"
proof -
  have p: "0 < p" by (simp add: p_def)
  have 1: "p \<le> p + r * p * (1 / 10)" using assms(1) p by simp
  have "r * p \<le> 1 * p" using assms(2) p by (intro mult_right_mono) auto
  then have 2: "10 * (p + r * p * (1 / 10)) \<le> 11 * p" by simp
  show "min 10000 p \<le> D" unfolding D_def using 1 by (simp add: min_def)
  show "10 * D \<le> 11 * min 10000 p" unfolding D_def using 1 2 by (simp add: min_def)
qed

lemma calculateDelay_backoff:
  assumes "1 \<le> k" "0 \<le> r" "r < 1"
  shows "\<exists>j. min 10000 (1000 * 2 ^ nat (k - 1)) \<le> j
             \<and> 10 * j \<le> 11 * min 10000 (1000 * 2 ^ nat (k - 1))
             \<and> calculateDelay k remaining r = max 0 (min remaining j)"
proof -
  define p :: rat where "p = 1000 * 2 ^ nat (k - 1)"
  define D where "D = min (p + r * p * (1 / 10)) 10000"
  define b :: int where "b = min 10000 (1000 * 2 ^ nat (k - 1))"
  have bp: "(of_int b :: rat) = min 10000 p" by (simp add: b_def p_def of_int_min)
  have lo: "of_int b \<le> D" and hi: "10 * D \<le> 11 * of_int b"
    using jittered_bounds [OF assms(2,3), of k] by (simp_all add: bp p_def D_def)
  have bpos: "0 < b" by (simp add: b_def)
  have j1: "b \<le> \<lfloor>D\<rfloor>" using lo by (simp add: le_floor_iff)
  have "of_int (10 * \<lfloor>D\<rfloor>) \<le> 10 * D" by simp
  also have "\<dots> \<le> of_int (11 * b)" using hi by simp
  finally have j2: "10 * \<lfloor>D\<rfloor> \<le> 11 * b" by (simp only: of_int_le_iff)
  have cd: "calculateDelay k remaining r = (if D > of_int remaining then max 0 remaining else \<lfloor>D\<rfloor>)"
    using calculateDelay_unfold [OF assms(1)] by (simp add: D_def p_def Let_def)
  have "calculateDelay k remaining r = max 0 (min remaining \<lfloor>D\<rfloor>)"
  proof (cases "D > of_int remaining")
    case True
    then have "remaining \<le> \<lfloor>D\<rfloor>" by (simp add: le_floor_iff)
    then show ?thesis using True cd by simp
  next
    case False
    then have "\<lfloor>D\<rfloor> \<le> remaining" by (simp add: floor_le_iff not_less) 
    then show ?thesis using False cd j1 bpos by simp
  qed
  then show ?thesis using j1 j2 unfolding b_def by blast
qed



lemma calculateDelay_pos_iff:
  assumes "1 \<le> k" "0 \<le> r" "r < 1"
  shows "0 < calculateDelay k remaining r \<longleftrightarrow> 0 < remaining"
proof -
  obtain j where j: "min 10000 (1000 * 2 ^ nat (k - 1)) \<le> j"
      and eq: "calculateDelay k remaining r = max 0 (min remaining j)"
    using calculateDelay_backoff [OF assms] by blast
  have "(0::int) < min 10000 (1000 * 2 ^ nat (k - 1))" by simp
  with j have "0 < j" by linarith
  then show ?thesis by (auto simp add: eq max_def min_def)
qed

lemma loop_success:
  assumes "attempt \<le> r_maxAttempts cfg" "operation (nat attempt) = Inr v"
  shows "executeWithRetry_loop operation sn cfg now random attempt lastError slept
           = \<lparr>outcome = Inr v, invocations = nat attempt, sleeps = slept\<rparr>"
  using assms by (subst executeWithRetry_loop.simps) simp

lemma loop_raise:
  assumes "attempt \<le> r_maxAttempts cfg" "operation (nat attempt) = Inl (RejectValue e)"
    and "\<not> isRetryableError e \<or> attempt = r_maxAttempts cfg"
  shows "executeWithRetry_loop operation sn cfg now random attempt lastError slept
           = \<lparr>outcome = Inl (createHttpException e sn), invocations = nat attempt, sleeps = slept\<rparr>"
  using assms by (subst executeWithRetry_loop.simps) auto

lemma loop_budget_exhausted:
  assumes "attempt < r_maxAttempts cfg" "operation (nat attempt) = Inl (RejectValue e)"
    and "isRetryableError e"
    and "calculateDelay attempt (r_maxDuration cfg - (now (nat attempt) - now 0)) (random (nat attempt)) \<le> 0"
  shows "executeWithRetry_loop operation sn cfg now random attempt lastError slept
           = \<lparr>outcome = Inl (createHttpException e sn), invocations = nat attempt, sleeps = slept\<rparr>"
  using assms by (subst executeWithRetry_loop.simps) (simp add: Let_def)

lemma loop_retry:
  assumes "attempt < r_maxAttempts cfg" "operation (nat attempt) = Inl (RejectValue e)"
    and "isRetryableError e"
    and "0 < calculateDelay attempt (r_maxDuration cfg - (now (nat attempt) - now 0)) (random (nat attempt))"
  shows "executeWithRetry_loop operation sn cfg now random attempt lastError slept
           = executeWithRetry_loop operation sn cfg now random (attempt + 1) (Some e)
               (slept @ [calculateDelay attempt (r_maxDuration cfg - (now (nat attempt) - now 0))
                           (random (nat attempt))])"
  using assms by (subst executeWithRetry_loop.simps) (simp add: Let_def)




text \<open>
  C5 (as amended). With \<open>maxAttempts = 3\<close>, an operation that fails twice with a retryable
  error and succeeds on the third call is called exactly three times and its value is
  returned, provided that the time budget \<open>maxDuration\<close> is not used up when each of the
  two retries is scheduled. An operation whose first failure is not retryable is called
  exactly once, and the classified failure is raised with nothing slept.
\<close>

theorem retry_until_success_or_fatal:
  "(r_maxAttempts (mergeConfig config) = 3
      \<and> operation 1 = Inl (RejectValue e1) \<and> isRetryableError e1
      \<and> operation 2 = Inl (RejectValue e2) \<and> isRetryableError e2
      \<and> operation 3 = Inr v
      \<and> now 1 - now 0 < r_maxDuration (mergeConfig config)
      \<and> now 2 - now 0 < r_maxDuration (mergeConfig config)
      \<and> 0 \<le> random 1 \<and> random 1 < 1 \<and> 0 \<le> random 2 \<and> random 2 < 1
    \<longrightarrow> outcome (executeWithRetry operation serviceName config now random) = Inr v
        \<and> invocations (executeWithRetry operation serviceName config now random) = 3)
   \<and> (1 \<le> r_maxAttempts (mergeConfig config) \<and> operation 1 = Inl (RejectValue e)
        \<and> \<not> isRetryableError e
    \<longrightarrow> executeWithRetry operation serviceName config now random
          = \<lparr>outcome = Inl (createHttpException e serviceName), invocations = 1, sleeps = []\<rparr>)"
proof (intro conjI impI)
  assume a: "r_maxAttempts (mergeConfig config) = 3
      \<and> operation 1 = Inl (RejectValue e1) \<and> isRetryableError e1
      \<and> operation 2 = Inl (RejectValue e2) \<and> isRetryableError e2
      \<and> operation 3 = Inr v
      \<and> now 1 - now 0 < r_maxDuration (mergeConfig config)
      \<and> now 2 - now 0 < r_maxDuration (mergeConfig config)
      \<and> 0 \<le> random 1 \<and> random 1 < 1 \<and> 0 \<le> random 2 \<and> random 2 < 1"
  let ?cfg = "mergeConfig config"
  let ?d1 = "calculateDelay 1 (r_maxDuration ?cfg - (now (nat 1) - now 0)) (random (nat 1))"
  let ?d2 = "calculateDelay 2 (r_maxDuration ?cfg - (now (nat 2) - now 0)) (random (nat 2))"
  have d1: "0 < ?d1" using a by (subst calculateDelay_pos_iff) auto
  have d2: "0 < ?d2" using a by (subst calculateDelay_pos_iff) auto
  have s1: "executeWithRetry_loop operation serviceName ?cfg now random 1 None []
              = executeWithRetry_loop operation serviceName ?cfg now random (1 + 1) (Some e1) ([] @ [?d1])"
    using a d1 by (intro loop_retry) auto
  have s2: "executeWithRetry_loop operation serviceName ?cfg now random 2 (Some e1) [?d1]
              = executeWithRetry_loop operation serviceName ?cfg now random (2 + 1) (Some e2) ([?d1] @ [?d2])"
    using a d2 by (intro loop_retry) auto
  have s3: "executeWithRetry_loop operation serviceName ?cfg now random 3 (Some e2) [?d1, ?d2]
              = \<lparr>outcome = Inr v, invocations = nat 3, sleeps = [?d1, ?d2]\<rparr>"
    using a by (intro loop_success) auto
  have run: "executeWithRetry operation serviceName config now random
               = \<lparr>outcome = Inr v, invocations = 3, sleeps = [?d1, ?d2]\<rparr>"
    unfolding executeWithRetry_def using s1 s2 s3 by simp
  show "outcome (executeWithRetry operation serviceName config now random) = Inr v"
    by (simp add: run)
  show "invocations (executeWithRetry operation serviceName config now random) = 3"
    by (simp add: run)
next
  assume "1 \<le> r_maxAttempts (mergeConfig config) \<and> operation 1 = Inl (RejectValue e)
        \<and> \<not> isRetryableError e"
  then show "executeWithRetry operation serviceName config now random
          = \<lparr>outcome = Inl (createHttpException e serviceName), invocations = 1, sleeps = []\<rparr>"
    unfolding executeWithRetry_def
    using loop_raise [of 1 "mergeConfig config" operation e serviceName now random None "[]"]
    by simp
qed

lemma flaky_retryable:
  "isRetryableError \<lparr>code = Some ''ECONNRESET'', response_status = None, message = None\<rparr>"
  "isRetryableError \<lparr>code = Some ''ETIMEDOUT'', response_status = None, message = None\<rparr>"
  by (simp_all add: isRetryableError_def)

lemma not_found_fatal:
  "\<not> isRetryableError \<lparr>code = None, response_status = Some 404,
                          message = Some ''Request failed with status code 404''\<rparr>"
  by (simp add: isRetryableError_def toLowerCase_def toLowerCase_char_def)

theorem retry_until_success_or_fatal_witness:
  "outcome (executeWithRetry flaky_operation ''MusicBrainz'' None quick_clock half) = Inr ''success''
   \<and> invocations (executeWithRetry flaky_operation ''MusicBrainz'' None quick_clock half) = 3
   \<and> executeWithRetry not_found_operation ''MusicBrainz'' None quick_clock half
        = \<lparr>outcome = Inl (Http HttpExceptionC 404
                             (ServiceBody 404 ''Failed to connect to MusicBrainz'' ''MusicBrainz'')),
           invocations = 1, sleeps = []\<rparr>"
  using retry_until_success_or_fatal
          [where config = None and operation = flaky_operation and now = quick_clock
             and random = half and serviceName = "''MusicBrainz''" and v = "''success''"
             and ?e1.0 = "\<lparr>code = Some ''ECONNRESET'', response_status = None, message = None\<rparr>"
             and ?e2.0 = "\<lparr>code = Some ''ETIMEDOUT'', response_status = None, message = None\<rparr>"]
        retry_until_success_or_fatal
          [where config = None and operation = not_found_operation and now = quick_clock
             and random = half and serviceName = "''MusicBrainz''"
             and e = "\<lparr>code = None, response_status = Some 404,
                       message = Some ''Request failed with status code 404''\<rparr>"]
        flaky_retryable not_found_fatal
  by (simp add: mergeConfig_def defaultConfig_def flaky_operation_def not_found_operation_def
        quick_clock_def half_def createHttpException_def)



text \<open>
  Without the proviso the first half fails: with the default budget of 30 seconds and
  calls that take 20 seconds each to fail, the second failure finds no budget left, the
  failure is raised and the third call, which would succeed, is never made.
\<close>

theorem retry_budget_exhausted_counterexample:
  "r_maxAttempts (mergeConfig None) = 3
   \<and> flaky_operation 1
        = Inl (RejectValue \<lparr>code = Some ''ECONNRESET'', response_status = None, message = None\<rparr>)
   \<and> isRetryableError \<lparr>code = Some ''ECONNRESET'', response_status = None, message = None\<rparr>
   \<and> flaky_operation 2
        = Inl (RejectValue \<lparr>code = Some ''ETIMEDOUT'', response_status = None, message = None\<rparr>)
   \<and> isRetryableError \<lparr>code = Some ''ETIMEDOUT'', response_status = None, message = None\<rparr>
   \<and> flaky_operation 3 = Inr ''success''
   \<and> invocations (executeWithRetry flaky_operation ''MusicBrainz'' None slow_clock half) = 2
   \<and> map_sum getStatus id (outcome (executeWithRetry flaky_operation ''MusicBrainz'' None slow_clock half))
        = Inl (Some 503)"
  by (simp add: executeWithRetry_def executeWithRetry_loop.simps mergeConfig_def defaultConfig_def
        flaky_operation_def slow_clock_def half_def isRetryableError_def calculateDelay_def
        Math_pow2_def createHttpException_def Let_def)

text \<open>
  C6. When attempt k, with \<open>1 \<le> k < maxAttempts\<close>, fails with a retryable error and
  \<open>remaining\<close> is what is left of \<open>maxDuration\<close> since the first attempt: if nothing
  is left, the classified failure is raised at once and nothing more is slept; otherwise
  the run sleeps \<open>min remaining j\<close> and goes on with attempt k + 1, where j lies within
  10 percent of \<open>min(10000, 1000 * 2^(k-1))\<close> (the jitter only adds, so j is between
  that value and 1.1 times it).
\<close>

theorem retry_backoff_delay:
  assumes "1 \<le> k" and "k < r_maxAttempts cfg"
    and "operation (nat k) = Inl (RejectValue e)" and "isRetryableError e"
    and "0 \<le> random (nat k)" and "random (nat k) < 1"
  shows "let remaining = r_maxDuration cfg - (now (nat k) - now 0);
             base = min 10000 (1000 * 2 ^ nat (k - 1))
         in (remaining \<le> 0 \<longrightarrow>
               executeWithRetry_loop operation serviceName cfg now random k lastError slept
                 = \<lparr>outcome = Inl (createHttpException e serviceName),
                    invocations = nat k, sleeps = slept\<rparr>)
            \<and> (0 < remaining \<longrightarrow>
                 (\<exists>j. base \<le> j \<and> 10 * j \<le> 11 * base
                     \<and> calculateDelay k remaining (random (nat k)) = min remaining j
                     \<and> executeWithRetry_loop operation serviceName cfg now random k lastError slept
                         = executeWithRetry_loop operation serviceName cfg now random (k + 1) (Some e)
                             (slept @ [min remaining j])))"
proof -
  define remaining where "remaining = r_maxDuration cfg - (now (nat k) - now 0)"
  define base :: int where "base = min 10000 (1000 * 2 ^ nat (k - 1))"
  obtain j where j: "base \<le> j" "10 * j \<le> 11 * base"
      and eq: "calculateDelay k remaining (random (nat k)) = max 0 (min remaining j)"
    using calculateDelay_backoff [OF assms(1,5,6), of remaining] unfolding base_def by blast
  have "0 < base" by (simp add: base_def)
  with j have jpos: "0 < j" by linarith
  have exhausted: "executeWithRetry_loop operation serviceName cfg now random k lastError slept
                 = \<lparr>outcome = Inl (createHttpException e serviceName),
                    invocations = nat k, sleeps = slept\<rparr>" if "remaining \<le> 0"
  proof -
    have "calculateDelay k remaining (random (nat k)) \<le> 0"
      using that jpos by (simp add: eq)
    then show ?thesis
      using assms(2,3,4) unfolding remaining_def by (intro loop_budget_exhausted) auto
  qed
  have retried: "calculateDelay k remaining (random (nat k)) = min remaining j
                 \<and> executeWithRetry_loop operation serviceName cfg now random k lastError slept
                         = executeWithRetry_loop operation serviceName cfg now random (k + 1) (Some e)
                             (slept @ [min remaining j])" if "0 < remaining"
  proof -
    have d: "calculateDelay k remaining (random (nat k)) = min remaining j"
      using that jpos by (simp add: eq)
    then have "0 < calculateDelay k remaining (random (nat k))"
      using that jpos by simp
    then show ?thesis
      using assms(2,3,4) d loop_retry [of k cfg operation e now random serviceName lastError slept]
      unfolding remaining_def by simp
  qed
  show ?thesis
    unfolding Let_def remaining_def [symmetric] base_def [symmetric]
    using exhausted retried j by blast
qed






theorem retry_backoff_delay_witness:
  "executeWithRetry_loop reset_operation ''MusicBrainz'' tight_config slow_clock half 2 None [1050]
     = \<lparr>outcome = Inl (Http HttpExceptionC 500
                          (ServiceBody 500 ''Failed to connect to MusicBrainz'' ''MusicBrainz'')),
        invocations = 2, sleeps = [1050]\<rparr>
   \<and> calculateDelay 2 1400 (1 / 2) = 1400
   \<and> executeWithRetry_loop reset_operation ''MusicBrainz'' tight_config quick_clock half 2 None [1050]
       = executeWithRetry_loop reset_operation ''MusicBrainz'' tight_config quick_clock half 3
           (Some \<lparr>code = Some ''ECONNRESET'', response_status = None, message = None\<rparr>)
           [1050, 1400]
   \<and> calculateDelay 1 30000 (1 / 2) = 1050"
proof -
  have r: "isRetryableError \<lparr>code = Some ''ECONNRESET'', response_status = None, message = None\<rparr>"
    by (simp add: isRetryableError_def)
  have c: "calculateDelay 1 30000 (1 / 2) = 1050"
    by (simp add: calculateDelay_def Math_pow2_def Let_def)
  from retry_backoff_delay
      [where k = 2 and cfg = tight_config and operation = reset_operation and random = half
         and now = slow_clock and serviceName = "''MusicBrainz''" and lastError = None
         and slept = "[1050]"
         and e = "\<lparr>code = Some ''ECONNRESET'', response_status = None, message = None\<rparr>"]
    retry_backoff_delay
      [where k = 2 and cfg = tight_config and operation = reset_operation and random = half
         and now = quick_clock and serviceName = "''MusicBrainz''" and lastError = None
         and slept = "[1050]"
         and e = "\<lparr>code = Some ''ECONNRESET'', response_status = None, message = None\<rparr>"]
    r c
  show ?thesis
    by (auto simp add: tight_config_def reset_operation_def half_def slow_clock_def quick_clock_def
          createHttpException_def Let_def)
qed





section \<open>RecordService\<close>


lemma create_error_wrapped:
  assumes "create_persist deps createDto d = Inl e"
  shows "create deps createDto d c =
           Some (Inl (if instanceof e NotFoundExceptionC \<or> instanceof e BadRequestExceptionC
                         \<or> instanceof e ConflictExceptionC
                      then e
                      else InternalServerErrorException (''Failed to create record: '' @ exn_message e)),
                 d, c)"
  using assms by (simp add: create_def create_try_def)

lemma provider_error_class:
  "\<not> instanceof (provider_error msg err) NotFoundExceptionC"
  "\<not> instanceof (provider_error msg err) BadRequestExceptionC"
  "\<not> instanceof (provider_error msg err) ConflictExceptionC"
  by (cases err; simp add: provider_error_def InternalServerErrorException_def)+

lemma provider_error_status:
  "getStatus (provider_error msg err) = Some (case getStatus err of Some st \<Rightarrow> st | None \<Rightarrow> 500)"
  by (cases err) (simp_all add: provider_error_def InternalServerErrorException_def)

text \<open>
  C4 (as amended). When the fetch from the metadata provider fails during a record creation
  or update, the whole operation fails and the database is left as it was. An update
  surfaces the provider's status (500 when the provider's error has none); a creation
  surfaces an InternalServerErrorException, status 500, whatever the provider's status was.
\<close>

theorem enrichment_failure_fails_the_write:
  assumes "getReleaseById deps m = Inl err" and "m \<noteq> []"
  shows "(c_mbid createDto = Some m
            \<and> findByIdentifiers \<lparr>i_mbid = c_mbid createDto, i_artist = Some (c_artist createDto),
                                   i_album = Some (c_album createDto),
                                   i_format = Some (c_format createDto)\<rparr> d = None
          \<longrightarrow> (\<exists>msg. create deps createDto d c = Some (Inl (InternalServerErrorException msg), d, c)))
       \<and> (u_mbid updateDto = Some m \<and> Record_findById id' d = Some stored \<and> mbid stored \<noteq> Some m
          \<longrightarrow> (\<exists>e. update deps id' updateDto d c = Some (Inl e, d, c)
                   \<and> getStatus e = Some (case getStatus err of Some st \<Rightarrow> st | None \<Rightarrow> 500)))"
proof (intro conjI impI)
  assume a: "c_mbid createDto = Some m
            \<and> findByIdentifiers \<lparr>i_mbid = c_mbid createDto, i_artist = Some (c_artist createDto),
                                   i_album = Some (c_album createDto),
                                   i_format = Some (c_format createDto)\<rparr> d = None"
  then have none: "findByIdentifiers \<lparr>i_mbid = Some m, i_artist = Some (c_artist createDto),
                                   i_album = Some (c_album createDto),
                                   i_format = Some (c_format createDto)\<rparr> d = None"
    and given: "c_mbid createDto = Some m"
    by auto
  have "create_persist deps createDto d
          = Inl (provider_error ''Failed to fetch data from MusicBrainz. Try again later.'' err)"
    using assms by (simp add: create_persist_def attachProviderDataToRecord_def given none)
  from create_error_wrapped [OF this, of c]
  show "\<exists>msg. create deps createDto d c = Some (Inl (InternalServerErrorException msg), d, c)"
    by (auto simp add: provider_error_class)
next
  assume a: "u_mbid updateDto = Some m \<and> Record_findById id' d = Some stored \<and> mbid stored \<noteq> Some m"
  then have neq: "Some m \<noteq> mbid stored" by auto
  from a have given: "u_mbid updateDto = Some m" and found: "Record_findById id' d = Some stored"
    by auto
  have "update_persist deps id' updateDto d
          = Inl (provider_error ''Failed to fetch data from MusicBrainz'' err)"
    using neq assms by (simp add: update_persist_def given found)
  then have "update deps id' updateDto d c
          = Some (Inl (provider_error ''Failed to fetch data from MusicBrainz'' err), d, c)"
    by (simp add: update_def)
  then show "\<exists>e. update deps id' updateDto d c = Some (Inl e, d, c)
                   \<and> getStatus e = Some (case getStatus err of Some st \<Rightarrow> st | None \<Rightarrow> 500)"
    by (simp add: provider_error_status)
qed

lemma example_no_conflict:
  "findByIdentifiers \<lparr>i_mbid = m, i_artist = Some ''Pink Floyd'', i_album = Some ''Animals'',
                       i_format = Some ''Vinyl''\<rparr> example_db = None"
  by (simp add: findByIdentifiers_def example_db_def example_record_def truthy_def
        split: option.splits)

theorem enrichment_failure_fails_the_write_witness:
  "(\<exists>msg. create (example_deps broken_cache)
             (example_createDto (Some ''b10bbbfc-cf9e-42e0-be17-e2c3e1d2600d'')) example_db ()
           = Some (Inl (InternalServerErrorException msg), example_db, ()))
   \<and> (\<exists>e. update (example_deps broken_cache) ''507f1f77bcf86cd799439011''
             (example_updateDto (Some ''b10bbbfc-cf9e-42e0-be17-e2c3e1d2600d'')) example_db ()
           = Some (Inl e, example_db, ())
         \<and> getStatus e = Some 404)"
  using enrichment_failure_fails_the_write
          [where deps = "example_deps broken_cache" and m = "''b10bbbfc-cf9e-42e0-be17-e2c3e1d2600d''"
             and err = "Http HttpExceptionC 404
                          (Text (''Release with ID b10bbbfc-cf9e-42e0-be17-e2c3e1d2600d not found in MusicBrainz''))"
             and createDto = "example_createDto (Some ''b10bbbfc-cf9e-42e0-be17-e2c3e1d2600d'')"
             and updateDto = "example_updateDto (Some ''b10bbbfc-cf9e-42e0-be17-e2c3e1d2600d'')"
             and d = example_db and c = "()" and id' = "''507f1f77bcf86cd799439011''"
             and stored = example_record]
  by (simp add: example_deps_def failing_provider_def Record_findById_def example_no_conflict
        example_createDto_def example_updateDto_def)
     (simp add: example_db_def example_record_def)

text \<open>
  A provider 404 during a creation: the \<open>catch\<close> of \<open>create\<close> re-throws only
  NotFoundException, BadRequestException and ConflictException; the \<open>HttpException\<close> that
  carries the 404 is none of them and is wrapped, so the caller sees 500.
\<close>

theorem create_wraps_provider_status_counterexample:
  "map_sum getStatus title (getReleaseById (example_deps broken_cache) ''b10bbbfc-cf9e-42e0-be17-e2c3e1d2600d'')
     = Inl (Some 404)
   \<and> map_option (\<lambda>res. map_sum getStatus fst (fst res))
        (create (example_deps broken_cache)
           (example_createDto (Some ''b10bbbfc-cf9e-42e0-be17-e2c3e1d2600d'')) example_db ())
     = Some (Inl (Some 500))"
  by (simp add: create_def create_try_def create_persist_def attachProviderDataToRecord_def
        provider_error_def example_deps_def failing_provider_def example_no_conflict
        InternalServerErrorException_def example_createDto_def)







end
